theory Spec2Isabelle
  imports Complex_Main "HOL-Library.Multiset"
begin

section \<open>The object store and effectful computations\<close>

text \<open>
  The library of \<^verbatim>\<open>src/index.ts\<close> is a small class hierarchy: \<^verbatim>\<open>Variant\<close> (the
  abstract base with \<^verbatim>\<open>match\<close>), \<^verbatim>\<open>Result\<close> with the classes \<^verbatim>\<open>Ok\<close> and
  \<^verbatim>\<open>Err\<close>, and \<^verbatim>\<open>Option\<close> with the classes \<^verbatim>\<open>Some\<close> and \<^verbatim>\<open>None\<close>.
  Instances are JavaScript objects: they live in a store, are handed around by
  reference, and \<^verbatim>\<open>match\<close> passes \<^verbatim>\<open>this\<close> itself to the selected handler.
  The embedding keeps that: an instance is an entry of the store, a reference is its
  index, and every method is a function from the store to a result and a store.

  An instance carries the own properties its class gives it. The discriminant is one
  of them (\<^verbatim>\<open>readonly tag = 'Ok' as const\<close> is a field initialiser, run at
  construction), so it is the first field of every constructor below; the payload
  fields follow, typed as the TypeScript classes type them: \<^verbatim>\<open>value: T\<close> for
  \<^verbatim>\<open>Ok\<close> and \<^verbatim>\<open>Some\<close>, \<^verbatim>\<open>error: E\<close> for \<^verbatim>\<open>Err\<close>, nothing for \<^verbatim>\<open>None\<close>.
  The datatype constructor is the class of the instance: it decides which method body
  runs (\<^verbatim>\<open>Some.isSome\<close> or \<^verbatim>\<open>None.isSome\<close>), while \<^verbatim>\<open>match\<close> reads the
  \<^verbatim>\<open>tag\<close> field.
\<close>

datatype ('t, 'e) obj =
    Ok string 't         \<comment> \<open>class \<^verbatim>\<open>Ok\<close>: fields \<^verbatim>\<open>tag\<close>, \<^verbatim>\<open>value\<close>\<close>
  | Err string 'e        \<comment> \<open>class \<^verbatim>\<open>Err\<close>: fields \<^verbatim>\<open>tag\<close>, \<^verbatim>\<open>error\<close>\<close>
  | Some_v string 't     \<comment> \<open>class \<^verbatim>\<open>Some\<close>: fields \<^verbatim>\<open>tag\<close>, \<^verbatim>\<open>value\<close>\<close>
  | None_v string        \<comment> \<open>class \<^verbatim>\<open>None\<close>: field \<^verbatim>\<open>tag\<close>\<close>

text \<open>\<^verbatim>\<open>this.tag\<close>: the discriminant field of an instance.\<close>

fun tag :: "('t, 'e) obj \<Rightarrow> string" where
  "tag (Ok t v) = t"
| "tag (Err t e) = t"
| "tag (Some_v t v) = t"
| "tag (None_v t) = t"

type_synonym ref = nat

text \<open>
  The state of a run: the store of instances (\<open>heap\<close>, indexed by reference, growing
  at its end with each \<^verbatim>\<open>new\<close>) and the variables of the calling program (\<open>vars\<close>),
  which the functions a caller passes in (handlers, \<^verbatim>\<open>f\<close>) may read and write.
\<close>

record ('t, 'e, 's) world =
  heap :: "('t, 'e) obj list"
  vars :: 's

text \<open>The two exception classes that occur, each with its message.\<close>

datatype error = Error string | TypeError string

text \<open>
  A computation returns a value or throws, and leaves a state behind in both cases
  (what was done before a \<^verbatim>\<open>throw\<close> stays done).
\<close>

type_synonym ('r, 't, 'e, 's) run =
  "('t, 'e, 's) world \<Rightarrow> (error + 'r) \<times> ('t, 'e, 's) world"

definition ret :: "'r \<Rightarrow> ('r, 't, 'e, 's) run" where
  "ret r w = (Inr r, w)"

definition throw :: "error \<Rightarrow> ('r, 't, 'e, 's) run" where
  "throw e w = (Inl e, w)"

text \<open>Sequencing: \<open>and_then m k\<close> runs \<open>m\<close>, then \<open>k\<close> on its value; a throw of \<open>m\<close> ends it.\<close>

definition and_then ::
  "('a, 't, 'e, 's) run \<Rightarrow> ('a \<Rightarrow> ('b, 't, 'e, 's) run) \<Rightarrow> ('b, 't, 'e, 's) run" where
  "and_then m k w = (case m w of (Inl e, w') \<Rightarrow> (Inl e, w') | (Inr a, w') \<Rightarrow> k a w')"

text \<open>\<^verbatim>\<open>new C(...)\<close>: the instance is stored at a fresh reference, which is returned.\<close>

definition new :: "('t, 'e) obj \<Rightarrow> (ref, 't, 'e, 's) run" where
  "new ob w = (Inr (length (heap w)), w\<lparr>heap := heap w @ [ob]\<rparr>)"

text \<open>
  Reading through a reference. A reference outside the store stands for no object;
  a property read on it throws a \<^verbatim>\<open>TypeError\<close>, as on \<^verbatim>\<open>undefined\<close>.
\<close>

definition deref :: "ref \<Rightarrow> (('t, 'e) obj, 't, 'e, 's) run" where
  "deref r w =
     (if r < length (heap w) then (Inr (heap w ! r), w)
      else (Inl (TypeError ''Cannot read properties of undefined''), w))"

section \<open>Variant: dispatch by discriminant\<close>

text \<open>
  The handler map is an object literal \<^verbatim>\<open>{ Ok: ..., Err: ... }\<close>: keys with their
  functions, in the order written. \<^verbatim>\<open>handlers[k]\<close> reads the property \<open>k\<close>; where
  a literal repeats a key the later entry has replaced the earlier one, and a key that
  is absent reads \<^verbatim>\<open>undefined\<close> (\<open>None\<close> here; properties inherited from
  \<^verbatim>\<open>Object.prototype\<close> are left out).
\<close>

definition handlers_get :: "(string \<times> 'h) list \<Rightarrow> string \<Rightarrow> 'h option" where
  "handlers_get handlers k = map_of (rev handlers) k"

text \<open>
  \<^verbatim>\<open>Variant.match\<close> (lines 8 to 11):
  \<^verbatim>\<open>const handler = handlers[this.tag]; return handler(this as any);\<close>
  The handler receives the reference \<^verbatim>\<open>this\<close>. Calling \<^verbatim>\<open>undefined\<close> throws a
  \<^verbatim>\<open>TypeError\<close>.
\<close>

definition match ::
  "ref \<Rightarrow> (string \<times> (ref \<Rightarrow> ('r, 't, 'e, 's) run)) list \<Rightarrow> ('r, 't, 'e, 's) run" where
  "match this handlers =
     and_then (deref this) (\<lambda>self.
       case handlers_get handlers (tag self) of
         None \<Rightarrow> throw (TypeError ''handler is not a function'')
       | Some handler \<Rightarrow> handler this)"

text \<open>
  Property reads \<^verbatim>\<open>x.value\<close> and \<^verbatim>\<open>x.error\<close>, as the destructuring handlers
  \<^verbatim>\<open>({ value }) => ...\<close> and \<^verbatim>\<open>({ error }) => ...\<close> do them. The handler types
  promise \<^verbatim>\<open>{ value: T }\<close> and \<^verbatim>\<open>{ error: E }\<close>. On an instance of a class
  without the field JavaScript would read \<^verbatim>\<open>undefined\<close>, which is no value of
  \<open>'t\<close> or \<open>'e\<close>; the typed embedding stops there with a \<^verbatim>\<open>TypeError\<close>.
\<close>

definition get_value :: "ref \<Rightarrow> ('t, 't, 'e, 's) run" where
  "get_value x =
     and_then (deref x) (\<lambda>self.
       case self of
         Ok t v \<Rightarrow> ret v
       | Some_v t v \<Rightarrow> ret v
       | _ \<Rightarrow> throw (TypeError ''value is undefined''))"

definition get_error :: "ref \<Rightarrow> ('e, 't, 'e, 's) run" where
  "get_error x =
     and_then (deref x) (\<lambda>self.
       case self of
         Err t e \<Rightarrow> ret e
       | _ \<Rightarrow> throw (TypeError ''error is undefined''))"

section \<open>Result\<close>

text \<open>
  \<^verbatim>\<open>Result.ok\<close> and \<^verbatim>\<open>Result.err\<close> (lines 25 to 31) with the constructors of
  \<^verbatim>\<open>Ok\<close> and \<^verbatim>\<open>Err\<close> (lines 34 to 46).
\<close>

definition Result_ok :: "'t \<Rightarrow> (ref, 't, 'e, 's) run" where
  "Result_ok v = new (Ok ''Ok'' v)"

definition Result_err :: "'e \<Rightarrow> (ref, 't, 'e, 's) run" where
  "Result_err e = new (Err ''Err'' e)"

section \<open>Option\<close>

text \<open>\<^verbatim>\<open>Option.some\<close> and \<^verbatim>\<open>Option.none\<close> (lines 56 to 62).\<close>

definition Option_some :: "'t \<Rightarrow> (ref, 't, 'e, 's) run" where
  "Option_some v = new (Some_v ''Some'' v)"

definition Option_none :: "(ref, 't, 'e, 's) run" where
  "Option_none = new (None_v ''None'')"

text \<open>
  The four abstract methods of \<^verbatim>\<open>Option\<close>, each with its body in \<^verbatim>\<open>Some\<close>
  (lines 90 to 101) and in \<^verbatim>\<open>None\<close> (lines 107 to 118). The class of the receiver
  selects the body; an instance of another class has no such method, and the call
  throws a \<^verbatim>\<open>TypeError\<close>.
\<close>

definition isSome :: "ref \<Rightarrow> (bool, 't, 'e, 's) run" where
  "isSome this =
     and_then (deref this) (\<lambda>self.
       case self of
         Some_v t v \<Rightarrow> ret True
       | None_v t \<Rightarrow> ret False
       | _ \<Rightarrow> throw (TypeError ''isSome is not a function''))"

definition isNone :: "ref \<Rightarrow> (bool, 't, 'e, 's) run" where
  "isNone this =
     and_then (deref this) (\<lambda>self.
       case self of
         Some_v t v \<Rightarrow> ret False
       | None_v t \<Rightarrow> ret True
       | _ \<Rightarrow> throw (TypeError ''isNone is not a function''))"

definition unwrap :: "ref \<Rightarrow> ('t, 't, 'e, 's) run" where
  "unwrap this =
     and_then (deref this) (\<lambda>self.
       case self of
         Some_v t v \<Rightarrow> ret v
       | None_v t \<Rightarrow> throw (Error ''Cannot unwrap None'')
       | _ \<Rightarrow> throw (TypeError ''unwrap is not a function''))"

definition unwrapOr :: "ref \<Rightarrow> 't \<Rightarrow> ('t, 't, 'e, 's) run" where
  "unwrapOr this defaultValue =
     and_then (deref this) (\<lambda>self.
       case self of
         Some_v t v \<Rightarrow> ret v
       | None_v t \<Rightarrow> ret defaultValue
       | _ \<Rightarrow> throw (TypeError ''unwrapOr is not a function''))"

text \<open>
  \<^verbatim>\<open>Option.map\<close> (lines 69 to 74) and \<^verbatim>\<open>Option.flatMap\<close> (lines 76 to 81),
  both written with \<^verbatim>\<open>this.match\<close>. The caller's \<^verbatim>\<open>f\<close> is any computation: it
  may write the caller's variables, allocate, or throw. One store holds payloads of one
  type, so \<^verbatim>\<open>U\<close> is \<^verbatim>\<open>T\<close> here; a caller with several payload types takes
  their sum for \<open>'t\<close>.
\<close>

definition Option_map :: "ref \<Rightarrow> ('t \<Rightarrow> ('t, 't, 'e, 's) run) \<Rightarrow> (ref, 't, 'e, 's) run" where
  "Option_map this f =
     match this
       [(''Some'', \<lambda>x. and_then (get_value x) (\<lambda>v. and_then (f v) Option_some)),
        (''None'', \<lambda>x. Option_none)]"

definition Option_flatMap :: "ref \<Rightarrow> ('t \<Rightarrow> (ref, 't, 'e, 's) run) \<Rightarrow> (ref, 't, 'e, 's) run" where
  "Option_flatMap this f =
     match this
       [(''Some'', \<lambda>x. and_then (get_value x) (\<lambda>v. f v)),
        (''None'', \<lambda>x. Option_none)]"

section \<open>The demonstration program\<close>

text \<open>
  A \<^verbatim>\<open>number\<close> is modelled as a rational: the finite values, with exact
  arithmetic. The rounding of IEEE doubles, \<^verbatim>\<open>NaN\<close> and the infinities are not
  part of this model; the two zeros are one.
\<close>

type_synonym number = rat

text \<open>
  \<^verbatim>\<open>a % b\<close>: the remainder of the division truncated towards zero, with the sign of
  the dividend. \<open>None\<close> stands for \<^verbatim>\<open>NaN\<close>, the result for a zero divisor (and
  \<^verbatim>\<open>NaN === 0\<close> is false).
\<close>

definition truncate :: "number \<Rightarrow> int" where
  "truncate q = (if q < 0 then \<lceil>q\<rceil> else \<lfloor>q\<rfloor>)"

definition number_rem :: "number \<Rightarrow> number \<Rightarrow> number option" where
  "number_rem a b = (if b = 0 then None else Some (a - b * of_int (truncate (a / b))))"

text \<open>
  The conversion of a number to a string, as a template literal does it. An integral
  value below \<open>2\<^sup>5\<^sup>3\<close> in magnitude (a safe integer: a double, as all its
  neighbours are) is printed as its decimal digits, with a minus sign when negative.
  The string for any other number is the shortest digit string that reads back as the
  same double, which depends on the binary representation this model does not carry:
  it is the parameter \<open>other\<close>, left open.
\<close>

definition digit_char :: "nat \<Rightarrow> char" where
  "digit_char d = ''0123456789'' ! d"

fun digits :: "nat \<Rightarrow> string" where
  "digits n = (if n < 10 then [digit_char n] else digits (n div 10) @ [digit_char (n mod 10)])"

declare digits.simps [simp del]

definition Number_toString :: "(number \<Rightarrow> string) \<Rightarrow> number \<Rightarrow> string" where
  "Number_toString other n =
     (if of_int \<lfloor>n\<rfloor> = n \<and> \<bar>n\<bar> < 2 ^ 53
      then (if n < 0 then ''-'' else []) @ digits (nat \<bar>\<lfloor>n\<rfloor>\<bar>)
      else other n)"

text \<open>\<^verbatim>\<open>divide\<close> (lines 122 to 127).\<close>

definition divide_result :: "number \<Rightarrow> number \<Rightarrow> (ref, number, string, 's) run" where
  "divide_result a b =
     (if b = 0 then Result_err ''Division by zero''
      else Result_ok (a / b))"

text \<open>
  \<^verbatim>\<open>findEven\<close> (lines 129 to 134). \<^verbatim>\<open>Array.prototype.find\<close> returns the first
  element that satisfies the predicate, or \<^verbatim>\<open>undefined\<close>: it is \<^const>\<open>find\<close>,
  with \<open>None\<close> for \<^verbatim>\<open>undefined\<close>. The test \<^verbatim>\<open>even !== undefined\<close> is the case
  distinction on that result.
\<close>

definition findEven :: "number list \<Rightarrow> (ref, number, 'e, 's) run" where
  "findEven numbers =
     (case find (\<lambda>n. number_rem n 2 = Some 0) numbers of
        Some even' \<Rightarrow> Option_some even'
      | None \<Rightarrow> Option_none)"

text \<open>
  The handlers of the \<^verbatim>\<open>results.forEach\<close> callback (lines 139 to 142):
  \<^verbatim>\<open>Ok: ({ value }) => `Result: ${value}`\<close> and
  \<^verbatim>\<open>Err: ({ error }) => `Error: ${error}`\<close>.
\<close>

definition result_handlers ::
  "(number \<Rightarrow> string) \<Rightarrow> (string \<times> (ref \<Rightarrow> (string, number, string, 's) run)) list" where
  "result_handlers other =
     [(''Ok'', \<lambda>x. and_then (get_value x) (\<lambda>v. ret (''Result: '' @ Number_toString other v))),
      (''Err'', \<lambda>x. and_then (get_error x) (\<lambda>e. ret (''Error: '' @ e)))]"

section \<open>Computations that leave existing instances alone\<close>


section \<open>Basic facts\<close>

lemma deref_new [simp]:
  "deref (length (heap w)) (w\<lparr>heap := heap w @ [ob]\<rparr>) = (Inr ob, w\<lparr>heap := heap w @ [ob]\<rparr>)"
  by (simp add: deref_def)

lemma and_then_new [simp]:
  "and_then (new ob) k w = k (length (heap w)) (w\<lparr>heap := heap w @ [ob]\<rparr>)"
  by (simp add: and_then_def new_def)

lemma and_then_ret [simp]: "and_then (ret r) k w = k r w"
  by (simp add: and_then_def ret_def)

lemma and_then_throw [simp]: "and_then (throw e) k w = (Inl e, w)"
  by (simp add: and_then_def throw_def)

lemma and_then_deref_new [simp]:
  "and_then (deref (length (heap w))) k (w\<lparr>heap := heap w @ [ob]\<rparr>) = k ob (w\<lparr>heap := heap w @ [ob]\<rparr>)"
  by (simp add: and_then_def)

lemma and_then_assoc [simp]:
  "and_then (and_then m f) g = and_then m (\<lambda>x. and_then (f x) g)"
  by (rule ext) (simp add: and_then_def split: prod.splits sum.splits)

lemma and_then_Inr [simp]: "and_then (\<lambda>u. (Inr a, h u)) k w = k a (h w)"
  by (simp add: and_then_def)

lemma and_then_deref [simp]:
  "this < length (heap w) \<Longrightarrow> and_then (deref this) k w = k (heap w ! this) w"
  by (simp add: and_then_def deref_def)

lemma handlers_get_distinct:
  "distinct (map fst handlers) \<Longrightarrow> (handlers_get handlers k = Some h) = ((k, h) \<in> set handlers)"
  by (simp add: handlers_get_def rev_map [symmetric])

lemma handlers_get_tabulate:
  "k \<in> set cases \<Longrightarrow> handlers_get (map (\<lambda>c. (c, g c)) cases) k = Some (g k)"
proof -
  assume "k \<in> set cases"
  then have "k \<in> set (rev cases)" by simp
  then have "map_of (map (\<lambda>c. (c, g c)) (rev cases)) k = Some (g k)"
    by (induction "rev cases" arbitrary: cases) (auto simp: map_of_map_restrict)
  then show ?thesis by (simp add: handlers_get_def rev_map)
qed

lemma match_bound:
  assumes "this < length (heap w)" and "distinct (map fst handlers)"
    and "(tag (heap w ! this), h) \<in> set handlers"
  shows "match this handlers w = h this w"
  using assms by (simp add: match_def handlers_get_distinct [THEN iffD2])

section \<open>Preservation of the store\<close>




















section \<open>Dispatch\<close>

text \<open>
  C1. For every instance in the store and every handler map with exactly one handler
  per declared case (the keys are distinct and are the declared cases, among them the
  instance's discriminant): exactly one handler \<open>h\<close> of the map is filed under the
  discriminant, and \<^verbatim>\<open>match\<close> is one call of \<open>h\<close> on the instance itself: it
  returns what \<open>h\<close> returns and leaves the state \<open>h\<close> leaves. The same holds for
  every reordering of the map. With handlers that only record their key and their
  argument in the caller's log and return their key, the log after \<^verbatim>\<open>match\<close> has
  one entry: the discriminant, with the instance.
\<close>

theorem match_invokes_selected_handler:
  fixes handlers :: "(string \<times> (ref \<Rightarrow> ('r, 't, 'e, 's) run)) list"
  assumes "this < length (heap w)"
    and "distinct (map fst handlers)"
    and "set (map fst handlers) = set cases"
    and "tag (heap w ! this) \<in> set cases"
  shows "(\<exists>h. (\<forall>h'. ((tag (heap w ! this), h') \<in> set handlers) = (h' = h))
            \<and> match this handlers w = h this w
            \<and> (\<forall>handlers'. mset handlers' = mset handlers \<longrightarrow> match this handlers' w = h this w))
         \<and> match this (map (\<lambda>k. (k, \<lambda>x u. (Inr k, u\<lparr>vars := vars u @ [(k, x)]\<rparr>))) cases)
              \<lparr>heap = heap w, vars = []\<rparr>
            = (Inr (tag (heap w ! this)), \<lparr>heap = heap w, vars = [(tag (heap w ! this), this)]\<rparr>)"
proof (intro conjI)
  let ?t = "tag (heap w ! this)"
  from assms(3,4) have "?t \<in> fst ` set handlers" by simp
  then obtain h where h: "(?t, h) \<in> set handlers" by auto
  have uniq: "\<forall>h'. ((?t, h') \<in> set handlers) = (h' = h)"
    using h assms(2) by (auto dest: eq_key_imp_eq_value)
  have here: "match this handlers w = h this w"
    using assms(1,2) h by (rule match_bound)
  have perm: "\<forall>handlers'. mset handlers' = mset handlers \<longrightarrow> match this handlers' w = h this w"
  proof (intro allI impI)
    fix handlers' :: "(string \<times> (ref \<Rightarrow> ('r, 't, 'e, 's) run)) list"
    assume m: "mset handlers' = mset handlers"
    then have "mset (map fst handlers') = mset (map fst handlers)" by simp
    then have d: "distinct (map fst handlers')"
      using assms(2) by (metis mset_eq_imp_distinct_iff)
    from m have "set handlers' = set handlers" by (rule mset_eq_setD)
    with h have "(?t, h) \<in> set handlers'" by simp
    with assms(1) d show "match this handlers' w = h this w" by (rule match_bound)
  qed
  from uniq here perm
  show "\<exists>h. (\<forall>h'. ((?t, h') \<in> set handlers) = (h' = h))
            \<and> match this handlers w = h this w
            \<and> (\<forall>handlers'. mset handlers' = mset handlers \<longrightarrow> match this handlers' w = h this w)"
    by blast
  show "match this (map (\<lambda>k. (k, \<lambda>x u. (Inr k, u\<lparr>vars := vars u @ [(k, x)]\<rparr>))) cases)
              \<lparr>heap = heap w, vars = []\<rparr>
            = (Inr ?t, \<lparr>heap = heap w, vars = [(?t, this)]\<rparr>)"
    using assms(1,4) by (simp add: match_def handlers_get_tabulate)
qed

text \<open>
  The theorem at a \<^verbatim>\<open>Some\<close> holding 7, with the handlers written \<^verbatim>\<open>None\<close> first:
  both orders return 7, and the log shows the one call.
\<close>

theorem match_invokes_selected_handler_witness:
  "(0::nat) < length (heap \<lparr>heap = [Some_v ''Some'' (7::nat) :: (nat, unit) obj], vars = ()\<rparr>)
   \<and> distinct (map fst [(''None'', \<lambda>x. ret (0::nat)), (''Some'', get_value :: ref \<Rightarrow> (nat, nat, unit, unit) run)])
   \<and> set (map fst [(''None'', \<lambda>x. ret (0::nat)), (''Some'', get_value :: ref \<Rightarrow> (nat, nat, unit, unit) run)])
       = set [''Some'', ''None'']
   \<and> tag (heap \<lparr>heap = [Some_v ''Some'' (7::nat) :: (nat, unit) obj], vars = ()\<rparr> ! 0) \<in> set [''Some'', ''None'']
   \<and> match 0 [(''None'', \<lambda>x. ret (0::nat)), (''Some'', get_value)]
         \<lparr>heap = [Some_v ''Some'' (7::nat) :: (nat, unit) obj], vars = ()\<rparr>
       = (Inr 7, \<lparr>heap = [Some_v ''Some'' 7], vars = ()\<rparr>)
   \<and> match 0 [(''Some'', get_value), (''None'', \<lambda>x. ret (0::nat))]
         \<lparr>heap = [Some_v ''Some'' (7::nat) :: (nat, unit) obj], vars = ()\<rparr>
       = (Inr 7, \<lparr>heap = [Some_v ''Some'' 7], vars = ()\<rparr>)
   \<and> match 0 (map (\<lambda>k. (k, \<lambda>x u. (Inr k, u\<lparr>vars := vars u @ [(k, x)]\<rparr>))) [''Some'', ''None''])
         \<lparr>heap = [Some_v ''Some'' (7::nat) :: (nat, unit) obj], vars = []\<rparr>
       = (Inr ''Some'', \<lparr>heap = [Some_v ''Some'' 7], vars = [(''Some'', 0)]\<rparr>)"
proof -
  let ?w = "\<lparr>heap = [Some_v ''Some'' (7::nat) :: (nat, unit) obj], vars = ()\<rparr>"
  let ?hs = "[(''None'', \<lambda>x. ret (0::nat)), (''Some'', get_value :: ref \<Rightarrow> (nat, nat, unit, unit) run)]"
  let ?cs = "[''Some'', ''None'']"
  have a: "(0::nat) < length (heap ?w)" by simp
  have b: "distinct (map fst ?hs)" by simp
  have c: "set (map fst ?hs) = set ?cs" by auto
  have d: "tag (heap ?w ! 0) \<in> set ?cs" by simp
  note main = match_invokes_selected_handler [OF a b c d]
  from main obtain h where
    uniq: "\<forall>h'. ((tag (heap ?w ! 0), h') \<in> set ?hs) = (h' = h)"
    and here: "match 0 ?hs ?w = h 0 ?w"
    and perm: "\<forall>handlers'. mset handlers' = mset ?hs \<longrightarrow> match 0 handlers' ?w = h 0 ?w"
    by blast
  have "(tag (heap ?w ! 0), get_value) \<in> set ?hs" by simp
  with uniq have h: "h = get_value" by auto
  have v: "get_value 0 ?w = (Inr 7, ?w)" by (simp add: get_value_def ret_def)
  have e: "match 0 ?hs ?w = (Inr 7, ?w)" using here h v by simp
  have "mset [(''Some'', get_value), (''None'', \<lambda>x. ret (0::nat))] = mset ?hs" by simp
  with perm have f: "match 0 [(''Some'', get_value), (''None'', \<lambda>x. ret (0::nat))] ?w = (Inr 7, ?w)"
    using h v by simp
  from main have g: "match 0 (map (\<lambda>k. (k, \<lambda>x u. (Inr k, u\<lparr>vars := vars u @ [(k, x)]\<rparr>))) ?cs)
         \<lparr>heap = heap ?w, vars = []\<rparr>
       = (Inr (tag (heap ?w ! 0)), \<lparr>heap = heap ?w, vars = [(tag (heap ?w ! 0), 0)]\<rparr>)"
    by blast
  from g have g': "match 0 (map (\<lambda>k. (k, \<lambda>x u. (Inr k, u\<lparr>vars := vars u @ [(k, x)]\<rparr>))) ?cs)
         \<lparr>heap = [Some_v ''Some'' (7::nat) :: (nat, unit) obj], vars = []\<rparr>
       = (Inr ''Some'', \<lparr>heap = [Some_v ''Some'' 7], vars = [(''Some'', 0)]\<rparr>)"
    by simp
  show ?thesis using a b c d e f g' by (intro conjI)
qed

text \<open>
  C9. The argument \<^verbatim>\<open>match\<close> passes to the selected handler is the instance itself:
  the handler receives the receiver's reference, and what it reads through it is the
  whole instance, the discriminant field with the payload fields. For
  \<^verbatim>\<open>Result.ok(v)\<close> the argument of the \<^verbatim>\<open>Ok\<close> handler is the reference that
  \<^verbatim>\<open>Result.ok\<close> returned, its \<^verbatim>\<open>tag\<close> is \<^verbatim>\<open>Ok\<close> and its \<^verbatim>\<open>value\<close> is \<open>v\<close>.
\<close>

theorem handler_receives_instance:
  "(this < length (heap w) \<longrightarrow>
      match this [(tag (heap w ! this), \<lambda>x. and_then (deref x) (\<lambda>self. ret (x, self)))] w
        = (Inr (this, heap w ! this), w))
   \<and> and_then (Result_ok v) (\<lambda>r. match r
        [(''Ok'', \<lambda>x. and_then (deref x) (\<lambda>self. and_then (get_value x) (\<lambda>v'. ret (x = r, tag self, v')))),
         (''Err'', \<lambda>x. throw (Error ''not an Err''))]) w'
       = (Inr (True, ''Ok'', v), w'\<lparr>heap := heap w' @ [Ok ''Ok'' v]\<rparr>)"
  by (simp add: match_def handlers_get_def Result_ok_def get_value_def ret_def)

text \<open>The theorem at an \<^verbatim>\<open>Err\<close> stored at reference 1.\<close>

theorem handler_receives_instance_witness:
  "(1::nat) < length (heap \<lparr>heap = [None_v ''None'', Err ''Err'' ''boom'' :: (nat, string) obj], vars = ()\<rparr>)
   \<and> match 1 [(''Err'', \<lambda>x. and_then (deref x) (\<lambda>self. ret (x, self)))]
        \<lparr>heap = [None_v ''None'', Err ''Err'' ''boom'' :: (nat, string) obj], vars = ()\<rparr>
      = (Inr (1, Err ''Err'' ''boom''), \<lparr>heap = [None_v ''None'', Err ''Err'' ''boom''], vars = ()\<rparr>)"
  using handler_receives_instance
    [of 1 "\<lparr>heap = [None_v ''None'', Err ''Err'' ''boom'' :: (nat, string) obj], vars = ()\<rparr>",
      THEN conjunct1]
  by simp

section \<open>Result through match\<close>

text \<open>
  C3. Round trip of the \<^verbatim>\<open>Result\<close> constructors through \<^verbatim>\<open>match\<close>: for every
  value \<open>v\<close>, \<^verbatim>\<open>Result.ok(v).match({Ok: x => x.value, Err: () => sentinel})\<close> returns
  \<open>v\<close>, and for every error \<open>e\<close>,
  \<^verbatim>\<open>Result.err(e).match({Ok: () => sentinel, Err: x => x.error})\<close> returns \<open>e\<close>.
\<close>

theorem result_round_trip:
  "and_then (Result_ok v) (\<lambda>r. match r [(''Ok'', get_value), (''Err'', \<lambda>x. ret sentinel)]) w
     = (Inr v, w\<lparr>heap := heap w @ [Ok ''Ok'' v]\<rparr>)
   \<and> and_then (Result_err e) (\<lambda>r. match r [(''Ok'', \<lambda>x. ret sentinel'), (''Err'', get_error)]) w'
     = (Inr e, w'\<lparr>heap := heap w' @ [Err ''Err'' e]\<rparr>)"
  by (simp add: Result_ok_def Result_err_def match_def handlers_get_def get_value_def get_error_def ret_def)

section \<open>Option.some and Option.none\<close>

text \<open>
  C6. For every value \<open>v\<close> and every default \<open>d\<close>, on the instance that
  \<^verbatim>\<open>Option.some(v)\<close> returns: \<^verbatim>\<open>isSome()\<close> is true, \<^verbatim>\<open>isNone()\<close> is false,
  \<^verbatim>\<open>unwrap()\<close> returns \<open>v\<close>, and \<^verbatim>\<open>unwrapOr(d)\<close> returns \<open>v\<close>, the default
  being ignored.
\<close>

theorem some_observers:
  "and_then (Option_some v) isSome w = (Inr True, w\<lparr>heap := heap w @ [Some_v ''Some'' v]\<rparr>)
   \<and> and_then (Option_some v) isNone w = (Inr False, w\<lparr>heap := heap w @ [Some_v ''Some'' v]\<rparr>)
   \<and> and_then (Option_some v) unwrap w = (Inr v, w\<lparr>heap := heap w @ [Some_v ''Some'' v]\<rparr>)
   \<and> and_then (Option_some v) (\<lambda>this. unwrapOr this d) w
       = (Inr v, w\<lparr>heap := heap w @ [Some_v ''Some'' v]\<rparr>)"
  by (simp add: Option_some_def isSome_def isNone_def unwrap_def unwrapOr_def ret_def)

text \<open>
  C2. On the instance that \<^verbatim>\<open>Option.none()\<close> returns: \<^verbatim>\<open>isSome()\<close> is false,
  \<^verbatim>\<open>isNone()\<close> is true, \<^verbatim>\<open>unwrapOr(d)\<close> returns \<open>d\<close> for every default \<open>d\<close>,
  and \<^verbatim>\<open>unwrap()\<close> does not return: it throws an \<^verbatim>\<open>Error\<close> with the fixed message
  \<^verbatim>\<open>Cannot unwrap None\<close>, which names the operation and the empty optional.
\<close>

theorem none_observers:
  "and_then Option_none isSome w = (Inr False, w\<lparr>heap := heap w @ [None_v ''None'']\<rparr>)
   \<and> and_then Option_none isNone w = (Inr True, w\<lparr>heap := heap w @ [None_v ''None'']\<rparr>)
   \<and> and_then Option_none (\<lambda>this. unwrapOr this d) w
       = (Inr d, w\<lparr>heap := heap w @ [None_v ''None'']\<rparr>)
   \<and> and_then Option_none unwrap w
       = (Inl (Error ''Cannot unwrap None''), w\<lparr>heap := heap w @ [None_v ''None'']\<rparr>)"
  by (simp add: Option_none_def isSome_def isNone_def unwrap_def unwrapOr_def ret_def throw_def)

section \<open>Option.map and Option.flatMap\<close>

text \<open>
  C4. For every value \<open>v\<close> and function \<open>f\<close>, \<^verbatim>\<open>Option.some(v).map(f)\<close> calls
  \<open>f\<close> on \<open>v\<close> and stores the value it returns in a new \<^verbatim>\<open>Some\<close>, so that
  \<^verbatim>\<open>unwrap()\<close> on the result returns \<open>f(v)\<close>. For every \<open>f\<close>,
  \<^verbatim>\<open>Option.none().map(f)\<close> is a new \<^verbatim>\<open>None\<close>, and \<open>f\<close> is not called: result and
  state do not depend on \<open>f\<close>, and the caller's variables are as before.
\<close>

theorem map_some_and_none:
  "and_then (Option_some v) (\<lambda>this. Option_map this f) w
     = and_then (f v) Option_some (w\<lparr>heap := heap w @ [Some_v ''Some'' v]\<rparr>)
   \<and> (f v (w\<lparr>heap := heap w @ [Some_v ''Some'' v]\<rparr>) = (Inr u, w2) \<longrightarrow>
        and_then (Option_some v) (\<lambda>this. Option_map this f) w
          = (Inr (length (heap w2)), w2\<lparr>heap := heap w2 @ [Some_v ''Some'' u]\<rparr>)
        \<and> and_then (and_then (Option_some v) (\<lambda>this. Option_map this f)) unwrap w
          = (Inr u, w2\<lparr>heap := heap w2 @ [Some_v ''Some'' u]\<rparr>))
   \<and> and_then Option_none (\<lambda>this. Option_map this f) w
       = (Inr (Suc (length (heap w))), w\<lparr>heap := heap w @ [None_v ''None'', None_v ''None'']\<rparr>)
   \<and> and_then (and_then Option_none (\<lambda>this. Option_map this f)) isNone w
       = (Inr True, w\<lparr>heap := heap w @ [None_v ''None'', None_v ''None'']\<rparr>)"
proof (intro conjI impI)
  let ?w1 = "w\<lparr>heap := heap w @ [Some_v ''Some'' v]\<rparr>"
  show some: "and_then (Option_some v) (\<lambda>this. Option_map this f) w = and_then (f v) Option_some ?w1"
    by (simp add: Option_some_def Option_map_def match_def handlers_get_def get_value_def)
  assume fv: "f v ?w1 = (Inr u, w2)"
  then have run: "and_then (f v) Option_some ?w1
      = (Inr (length (heap w2)), w2\<lparr>heap := heap w2 @ [Some_v ''Some'' u]\<rparr>)"
    by (simp add: and_then_def Option_some_def new_def)
  with some show "and_then (Option_some v) (\<lambda>this. Option_map this f) w
      = (Inr (length (heap w2)), w2\<lparr>heap := heap w2 @ [Some_v ''Some'' u]\<rparr>)"
    by simp
  have "and_then (and_then (Option_some v) (\<lambda>this. Option_map this f)) unwrap w
      = (case and_then (Option_some v) (\<lambda>this. Option_map this f) w of
           (Inl e, w') \<Rightarrow> (Inl e, w') | (Inr a, w') \<Rightarrow> unwrap a w')"
    by (simp only: and_then_def)
  also have "\<dots> = unwrap (length (heap w2)) (w2\<lparr>heap := heap w2 @ [Some_v ''Some'' u]\<rparr>)"
    using some run by simp
  also have "\<dots> = (Inr u, w2\<lparr>heap := heap w2 @ [Some_v ''Some'' u]\<rparr>)"
    by (simp add: unwrap_def ret_def)
  finally show "and_then (and_then (Option_some v) (\<lambda>this. Option_map this f)) unwrap w
      = (Inr u, w2\<lparr>heap := heap w2 @ [Some_v ''Some'' u]\<rparr>)" .
next
  show "and_then Option_none (\<lambda>this. Option_map this f) w
       = (Inr (Suc (length (heap w))), w\<lparr>heap := heap w @ [None_v ''None'', None_v ''None'']\<rparr>)"
    by (simp add: Option_none_def Option_map_def match_def handlers_get_def new_def)
  show "and_then (and_then Option_none (\<lambda>this. Option_map this f)) isNone w
       = (Inr True, w\<lparr>heap := heap w @ [None_v ''None'', None_v ''None'']\<rparr>)"
    by (simp add: Option_none_def Option_map_def match_def handlers_get_def isNone_def
        ret_def nth_append)
qed

text \<open>
  The theorem at a function that doubles its argument and counts its calls in the
  caller's variable: one call on \<^verbatim>\<open>Some\<close>, none on \<^verbatim>\<open>None\<close>.
\<close>

theorem map_some_and_none_witness:
  "(\<lambda>x u. (Inr (2 * x), u\<lparr>vars := Suc (vars u)\<rparr>)) (21::nat)
       (\<lparr>heap = [] :: (nat, unit) obj list, vars = 0::nat\<rparr>\<lparr>heap := [] @ [Some_v ''Some'' 21]\<rparr>)
     = (Inr 42, \<lparr>heap = [Some_v ''Some'' 21], vars = 1\<rparr>)
   \<and> and_then (and_then (Option_some 21) (\<lambda>this. Option_map this
           (\<lambda>x u. (Inr (2 * x), u\<lparr>vars := Suc (vars u)\<rparr>)))) unwrap
         \<lparr>heap = [] :: (nat, unit) obj list, vars = 0::nat\<rparr>
       = (Inr 42, \<lparr>heap = [Some_v ''Some'' 21, Some_v ''Some'' 42], vars = 1\<rparr>)
   \<and> and_then Option_none (\<lambda>this. Option_map this
           (\<lambda>x u. (Inr (2 * x), u\<lparr>vars := Suc (vars u)\<rparr>)))
         \<lparr>heap = [] :: (nat, unit) obj list, vars = 0::nat\<rparr>
       = (Inr 1, \<lparr>heap = [None_v ''None'', None_v ''None''], vars = 0\<rparr>)"
proof -
  let ?f = "\<lambda>(x::nat) (u :: (nat, unit, nat) world). (Inr (2 * x) :: error + nat, u\<lparr>vars := Suc (vars u)\<rparr>)"
  let ?w = "\<lparr>heap = [] :: (nat, unit) obj list, vars = 0::nat\<rparr>"
  have hyp: "?f 21 (?w\<lparr>heap := heap ?w @ [Some_v ''Some'' 21]\<rparr>)
      = (Inr 42, \<lparr>heap = [Some_v ''Some'' 21], vars = 1\<rparr>)"
    by simp
  note main = map_some_and_none [of 21 ?f ?w 42 "\<lparr>heap = [Some_v ''Some'' 21], vars = 1\<rparr>"]
  from main hyp have a: "and_then (and_then (Option_some 21) (\<lambda>this. Option_map this ?f)) unwrap ?w
      = (Inr 42, \<lparr>heap = [Some_v ''Some'' 21], vars = 1\<rparr>\<lparr>heap := heap \<lparr>heap = [Some_v ''Some'' 21], vars = 1::nat\<rparr> @ [Some_v ''Some'' 42]\<rparr>)"
    by blast
  from main have b: "and_then Option_none (\<lambda>this. Option_map this ?f) ?w
       = (Inr (Suc (length (heap ?w))), ?w\<lparr>heap := heap ?w @ [None_v ''None'', None_v ''None'']\<rparr>)"
    by blast
  show ?thesis using hyp a b by simp
qed

text \<open>
  C5. For every value \<open>v\<close> and every function \<open>f\<close> that returns an \<^verbatim>\<open>Option\<close>,
  \<^verbatim>\<open>Option.some(v).flatMap(f)\<close> is \<open>f(v)\<close> itself: the same instance, hence the same
  case and payload, with no \<^verbatim>\<open>Some\<close> wrapped around it. For every \<open>f\<close>,
  \<^verbatim>\<open>Option.none().flatMap(f)\<close> is a new \<^verbatim>\<open>None\<close>, and \<open>f\<close> is not called.
\<close>

theorem flatMap_some_and_none:
  "and_then (Option_some v) (\<lambda>this. Option_flatMap this f) w
     = f v (w\<lparr>heap := heap w @ [Some_v ''Some'' v]\<rparr>)
   \<and> and_then Option_none (\<lambda>this. Option_flatMap this f) w
       = (Inr (Suc (length (heap w))), w\<lparr>heap := heap w @ [None_v ''None'', None_v ''None'']\<rparr>)
   \<and> and_then (and_then Option_none (\<lambda>this. Option_flatMap this f)) isNone w
       = (Inr True, w\<lparr>heap := heap w @ [None_v ''None'', None_v ''None'']\<rparr>)"
  by (simp add: Option_some_def Option_none_def Option_flatMap_def match_def handlers_get_def
      get_value_def isNone_def new_def ret_def nth_append)

section \<open>Immutability\<close>




section \<open>The demonstration program: divide and findEven\<close>

text \<open>
  C7. \<^verbatim>\<open>divide(10, 2)\<close> returns an \<^verbatim>\<open>Ok\<close> with value 5, and its match against
  the handlers of the demonstration yields the message \<^verbatim>\<open>Result: 5\<close>;
  \<^verbatim>\<open>divide(1, 0)\<close> returns an \<^verbatim>\<open>Err\<close> with error \<^verbatim>\<open>Division by zero\<close>, and
  yields the message \<^verbatim>\<open>Error: Division by zero\<close>.
\<close>

theorem divide_scenarios:
  "divide_result 10 2 w = (Inr (length (heap w)), w\<lparr>heap := heap w @ [Ok ''Ok'' 5]\<rparr>)
   \<and> and_then (divide_result 10 2) (\<lambda>result. match result (result_handlers other)) w
       = (Inr ''Result: 5'', w\<lparr>heap := heap w @ [Ok ''Ok'' 5]\<rparr>)
   \<and> divide_result 1 0 w
       = (Inr (length (heap w)), w\<lparr>heap := heap w @ [Err ''Err'' ''Division by zero'']\<rparr>)
   \<and> and_then (divide_result 1 0) (\<lambda>result. match result (result_handlers other)) w
       = (Inr ''Error: Division by zero'', w\<lparr>heap := heap w @ [Err ''Err'' ''Division by zero'']\<rparr>)"
  by (simp add: divide_result_def Result_ok_def Result_err_def new_def match_def handlers_get_def
      result_handlers_def get_value_def get_error_def ret_def Number_toString_def digits.simps
      digit_char_def)

text \<open>
  C10. For every list of numbers: when some element has remainder 0 modulo 2,
  \<^verbatim>\<open>findEven\<close> returns a new \<^verbatim>\<open>Some\<close> holding the element at the smallest index
  with that property; when no element has, it returns a new \<^verbatim>\<open>None\<close>.
\<close>

theorem findEven_first_even:
  "((\<exists>n \<in> set numbers. number_rem n 2 = Some 0) \<longrightarrow>
      (\<exists>i < length numbers.
          number_rem (numbers ! i) 2 = Some 0
        \<and> (\<forall>j < i. number_rem (numbers ! j) 2 \<noteq> Some 0)
        \<and> findEven numbers w
            = (Inr (length (heap w)), w\<lparr>heap := heap w @ [Some_v ''Some'' (numbers ! i)]\<rparr>)))
   \<and> ((\<forall>n \<in> set numbers. number_rem n 2 \<noteq> Some 0) \<longrightarrow>
        findEven numbers w = (Inr (length (heap w)), w\<lparr>heap := heap w @ [None_v ''None'']\<rparr>))"
proof (intro conjI impI)
  let ?P = "\<lambda>n. number_rem n 2 = Some 0"
  assume "\<exists>n \<in> set numbers. ?P n"
  then have "find ?P numbers \<noteq> None" by (auto simp: find_None_iff)
  then obtain x where x: "find ?P numbers = Some x" by auto
  then obtain i where i: "i < length numbers" "?P (numbers ! i)" "x = numbers ! i"
    "\<forall>j < i. \<not> ?P (numbers ! j)"
    unfolding find_Some_iff by blast
  from x i(3) have "findEven numbers w
      = (Inr (length (heap w)), w\<lparr>heap := heap w @ [Some_v ''Some'' (numbers ! i)]\<rparr>)"
    by (simp add: findEven_def Option_some_def new_def)
  with i show "\<exists>i < length numbers. ?P (numbers ! i) \<and> (\<forall>j < i. number_rem (numbers ! j) 2 \<noteq> Some 0)
        \<and> findEven numbers w
            = (Inr (length (heap w)), w\<lparr>heap := heap w @ [Some_v ''Some'' (numbers ! i)]\<rparr>)"
    by blast
next
  assume "\<forall>n \<in> set numbers. number_rem n 2 \<noteq> Some 0"
  then have "find (\<lambda>n. number_rem n 2 = Some 0) numbers = None"
    by (simp add: find_None_iff)
  then show "findEven numbers w = (Inr (length (heap w)), w\<lparr>heap := heap w @ [None_v ''None'']\<rparr>)"
    by (simp add: findEven_def Option_none_def new_def)
qed

text \<open>
  The theorem at the list of the demonstration, whose first even element is 8, and at
  the same list without it.
\<close>

theorem findEven_first_even_witness:
  "(\<exists>n \<in> set [1, 3, 5, 7, 8, 9]. number_rem n 2 = Some 0)
   \<and> findEven [1, 3, 5, 7, 8, 9] \<lparr>heap = [] :: (number, unit) obj list, vars = ()\<rparr>
       = (Inr 0, \<lparr>heap = [Some_v ''Some'' 8], vars = ()\<rparr>)
   \<and> \<not> (\<exists>n \<in> set [1, 3, 5, 7, 9]. number_rem n 2 = Some 0)
   \<and> findEven [1, 3, 5, 7, 9] \<lparr>heap = [] :: (number, unit) obj list, vars = ()\<rparr>
       = (Inr 0, \<lparr>heap = [None_v ''None''], vars = ()\<rparr>)"
proof -
  let ?xs = "[1, 3, 5, 7, 8, 9] :: number list"
  let ?ys = "[1, 3, 5, 7, 9] :: number list"
  let ?w = "\<lparr>heap = [] :: (number, unit) obj list, vars = ()\<rparr>"
  have odd: "number_rem 1 2 = Some 1" "number_rem 3 2 = Some 1" "number_rem 5 2 = Some 1"
    "number_rem 7 2 = Some 1" "number_rem 9 2 = Some 1"
    by code_simp+
  have even: "number_rem 8 2 = Some 0"
    by code_simp
  have a: "\<exists>n \<in> set ?xs. number_rem n 2 = Some 0"
    using even by simp
  have b: "\<forall>n \<in> set ?ys. number_rem n 2 \<noteq> Some 0"
    using odd by simp
  from findEven_first_even [of ?xs ?w] a obtain i where
    i: "i < length ?xs" "number_rem (?xs ! i) 2 = Some 0"
    and r: "findEven ?xs ?w
      = (Inr (length (heap ?w)), ?w\<lparr>heap := heap ?w @ [Some_v ''Some'' (?xs ! i)]\<rparr>)"
    by blast
  from i(1) have "i = 0 \<or> i = 1 \<or> i = 2 \<or> i = 3 \<or> i = 4 \<or> i = 5"
    by auto
  with i(2) odd have "i = 4"
    by auto
  with r have c: "findEven ?xs ?w = (Inr 0, \<lparr>heap = [Some_v ''Some'' 8], vars = ()\<rparr>)"
    by simp
  from findEven_first_even [of ?ys ?w] b
  have "findEven ?ys ?w = (Inr (length (heap ?w)), ?w\<lparr>heap := heap ?w @ [None_v ''None'']\<rparr>)"
    by blast
  then have d: "findEven ?ys ?w = (Inr 0, \<lparr>heap = [None_v ''None''], vars = ()\<rparr>)"
    by simp
  from a b c d show ?thesis by blast
qed

end
